theory Spec2Isabelle
  imports Main
begin

section \<open>Text, characters and Python's character classes\<close>

text \<open>
  A Python \<open>str\<close> is a sequence of Unicode code points, and \<open>len\<close> counts code points.
  A text is therefore a list of code points, each a natural number.  ASCII literals are
  written with \<open>ascii\<close>; a code point beyond ASCII is written as its number.
\<close>

type_synonym ustr = "nat list"

definition ascii :: "string \<Rightarrow> ustr" where
  "ascii s = map of_char s"

definition NL :: nat where
  "NL = 10"

definition SP :: nat where
  "SP = 32"

text \<open>
  The source file \<open>enhanced_pdf_parser_with_sources.py\<close> stores every character beyond
  ASCII of its regular expressions as the Mac-Roman misreading of the UTF-8 bytes of the
  character its comments talk about.  Python decodes the file as UTF-8, so the patterns
  hold the code points that are in the file:
  \<^item> where a multiplication sign (U+00D7) is meant, the two code points U+221A U+00F3;
  \<^item> where a degree sign (U+00B0) is meant, U+00AC U+221E;
  \<^item> where a plus-minus sign (U+00B1) is meant, U+00AC U+00B1;
  \<^item> where a micro sign (U+03BC) is meant, U+0152 U+00BA;
  \<^item> where an en dash (U+2013) is meant, U+201A U+00C4 U+00EC.
  The definitions below take the code points of the file.
\<close>

definition c_not :: nat where "c_not = 172"        \<comment> \<open>U+00AC\<close>
definition c_pm :: nat where "c_pm = 177"          \<comment> \<open>U+00B1, plus-minus sign\<close>
definition c_ordm :: nat where "c_ordm = 186"      \<comment> \<open>U+00BA\<close>
definition c_Adia :: nat where "c_Adia = 196"      \<comment> \<open>U+00C4\<close>
definition c_times :: nat where "c_times = 215"    \<comment> \<open>U+00D7, multiplication sign\<close>
definition c_igrave :: nat where "c_igrave = 236"  \<comment> \<open>U+00EC\<close>
definition c_oacute :: nat where "c_oacute = 243"  \<comment> \<open>U+00F3\<close>
definition c_OE :: nat where "c_OE = 338"          \<comment> \<open>U+0152\<close>
definition c_lowq :: nat where "c_lowq = 8218"     \<comment> \<open>U+201A\<close>
definition c_sqrt :: nat where "c_sqrt = 8730"     \<comment> \<open>U+221A\<close>
definition c_infty :: nat where "c_infty = 8734"   \<comment> \<open>U+221E\<close>

text \<open>
  Python's \<open>\s\<close> on a \<open>str\<close> pattern and \<open>str.strip()\<close> use the same whitespace test:
  the ASCII whitespace and separators U+0009..U+000D, U+001C..U+0020, and U+0085, U+00A0,
  U+1680, U+2000..U+200A, U+2028, U+2029, U+202F, U+205F, U+3000.
\<close>

definition is_space :: "nat \<Rightarrow> bool" where
  "is_space c \<longleftrightarrow>
     (9 \<le> c \<and> c \<le> 13) \<or> (28 \<le> c \<and> c \<le> 32) \<or> c = 133 \<or> c = 160 \<or> c = 5760 \<or>
     (8192 \<le> c \<and> c \<le> 8202) \<or> c = 8232 \<or> c = 8233 \<or> c = 8239 \<or> c = 8287 \<or> c = 12288"

text \<open>
  \<open>\d\<close> and \<open>\w\<close> on a \<open>str\<close> pattern ask Python's Unicode database: \<open>\d\<close> is a decimal
  digit, \<open>\w\<close> is an alphanumeric character or the underscore.  On ASCII the answer is
  fixed; beyond ASCII the database is a table of the Python installation, which is not part
  of the repository, so it is a parameter of the model.
\<close>

record unicode_db =
  decimal :: "nat \<Rightarrow> bool"
  alnum :: "nat \<Rightarrow> bool"

definition is_digit :: "unicode_db \<Rightarrow> nat \<Rightarrow> bool" where
  "is_digit U c \<longleftrightarrow> (48 \<le> c \<and> c \<le> 57) \<or> (128 \<le> c \<and> decimal U c)"

definition is_word :: "unicode_db \<Rightarrow> nat \<Rightarrow> bool" where
  "is_word U c \<longleftrightarrow>
     (48 \<le> c \<and> c \<le> 57) \<or> (65 \<le> c \<and> c \<le> 90) \<or> (97 \<le> c \<and> c \<le> 122) \<or> c = 95 \<or>
     (128 \<le> c \<and> alnum U c)"

text \<open>
  The database on Latin-1 (code points below 256), enough for every text whose characters
  are all below 256: the matcher consults the database only on characters of the text.
  Decimal digits there are the ASCII digits only; alphanumeric are the letters, the
  ordinal indicators, the micro sign, the superscript digits and the vulgar fractions.
\<close>

definition latin1 :: unicode_db where
  "latin1 = \<lparr> decimal = (\<lambda>c. False),
              alnum = (\<lambda>c. c = 170 \<or> c = 178 \<or> c = 179 \<or> c = 181 \<or> c = 185 \<or> c = 186 \<or>
                        (188 \<le> c \<and> c \<le> 190) \<or> (192 \<le> c \<and> c \<le> 214) \<or>
                        (216 \<le> c \<and> c \<le> 246) \<or> (248 \<le> c \<and> c \<le> 255)) \<rparr>"

definition strip :: "ustr \<Rightarrow> ustr" where
  "strip s = rev (dropWhile is_space (rev (dropWhile is_space s)))"


section \<open>Regular expressions as \<open>re.sub\<close> runs them\<close>

text \<open>
  The patterns of the program are built from single-character classes, the greedy
  quantifiers \<open>?\<close>, \<open>*\<close> and \<open>+\<close> on a class, concatenation, alternation and numbered
  groups.  The matcher is the backtracking matcher of Python's \<open>re\<close>: a quantifier takes as
  many characters as it can and gives them back one at a time, an alternation tries its
  left branch first, and the first way to match that the continuation accepts is the match.
\<close>

type_synonym cls = "nat \<Rightarrow> bool"

datatype rx =
    One cls
  | Opt cls
  | Star cls
  | Plus cls
  | Seq rx rx
  | Alt rx rx
  | Grp nat rx

type_synonym groups = "nat \<Rightarrow> ustr"

definition lit :: "nat \<Rightarrow> cls" where
  "lit a = (\<lambda>c. c = a)"

definition oneof :: "nat list \<Rightarrow> cls" where
  "oneof cs = (\<lambda>c. c \<in> set cs)"

fun cat :: "rx list \<Rightarrow> rx" where
  "cat [] = Star (\<lambda>c. False)"
| "cat [r] = r"
| "cat (r # rs) = Seq r (cat rs)"

fun star_m :: "cls \<Rightarrow> ustr \<Rightarrow> (ustr \<Rightarrow> (ustr \<times> groups) option) \<Rightarrow> (ustr \<times> groups) option" where
  "star_m c [] k = k []"
| "star_m c (x # xs) k =
     (if c x then (case star_m c xs k of Some r \<Rightarrow> Some r | None \<Rightarrow> k (x # xs))
      else k (x # xs))"

fun rx_m :: "rx \<Rightarrow> ustr \<Rightarrow> groups \<Rightarrow> (ustr \<Rightarrow> groups \<Rightarrow> (ustr \<times> groups) option)
               \<Rightarrow> (ustr \<times> groups) option" where
  "rx_m (One c) s g k = (case s of [] \<Rightarrow> None | x # xs \<Rightarrow> if c x then k xs g else None)"
| "rx_m (Opt c) s g k =
     (case s of [] \<Rightarrow> k [] g
      | x # xs \<Rightarrow> if c x then (case k xs g of Some r \<Rightarrow> Some r | None \<Rightarrow> k (x # xs) g)
                  else k (x # xs) g)"
| "rx_m (Star c) s g k = star_m c s (\<lambda>s'. k s' g)"
| "rx_m (Plus c) s g k =
     (case s of [] \<Rightarrow> None | x # xs \<Rightarrow> if c x then star_m c xs (\<lambda>s'. k s' g) else None)"
| "rx_m (Seq a b) s g k = rx_m a s g (\<lambda>s' g'. rx_m b s' g' k)"
| "rx_m (Alt a b) s g k =
     (case rx_m a s g k of Some r \<Rightarrow> Some r | None \<Rightarrow> rx_m b s g k)"
| "rx_m (Grp n r) s g k =
     rx_m r s g (\<lambda>s' g'. k s' (g'(n := take (length s - length s') s)))"

text \<open>
  A match at the start of \<open>s\<close>: the text left after the match and the texts of the groups.
\<close>

definition rx_match :: "rx \<Rightarrow> ustr \<Rightarrow> (ustr \<times> groups) option" where
  "rx_match r s = rx_m r s (\<lambda>n. []) (\<lambda>s' g. Some (s', g))"

text \<open>
  A replacement template such as \<open>r'\1^\2'\<close> is a list of literal texts and group
  references.
\<close>

datatype piece = Lit ustr | Ref nat

fun expand :: "piece list \<Rightarrow> groups \<Rightarrow> ustr" where
  "expand [] g = []"
| "expand (Lit t # ps) g = t @ expand ps g"
| "expand (Ref n # ps) g = g n @ expand ps g"

text \<open>
  \<open>re.sub(pattern, repl, text)\<close>: scan from the left; at the leftmost position where the
  pattern matches, emit the replacement and go on after the match; a character at which no
  match starts is copied.  Every pattern of the program starts with a class that must
  match, so no match of the program is empty; for a pattern that matched the empty text
  the replacement is emitted and the scan moves one character on.
\<close>

function re_sub :: "rx \<Rightarrow> piece list \<Rightarrow> ustr \<Rightarrow> ustr" where
  "re_sub r t [] = (case rx_match r [] of None \<Rightarrow> [] | Some (s', g) \<Rightarrow> expand t g)"
| "re_sub r t (x # xs) =
     (case rx_match r (x # xs) of
        None \<Rightarrow> x # re_sub r t xs
      | Some (s', g) \<Rightarrow>
          if length s' < length (x # xs) then expand t g @ re_sub r t s'
          else expand t g @ x # re_sub r t xs)"
  by pat_completeness auto
termination
  by (relation "measure (\<lambda>(r, t, s). length s)") auto


section \<open>The four cleaning passes\<close>

subsection \<open>\<open>_fix_numerical_line_breaks\<close>\<close>

definition number :: "unicode_db \<Rightarrow> rx" where
  \<comment> \<open>\<open>\d+\.?\d*\<close>\<close>
  "number U = cat [Plus (is_digit U), Opt (lit 46), Star (is_digit U)]"

definition ws_nl_ws :: rx where
  \<comment> \<open>\<open>\s*\n\s*\<close>\<close>
  "ws_nl_ws = cat [Star is_space, One (lit NL), Star is_space]"

definition rx_percent :: "unicode_db \<Rightarrow> rx" where
  \<comment> \<open>\<open>(\d+\.?\d*)\s*\n\s*([%..])\<close>, the class holding \<open>%\<close>, U+00AC and U+221E\<close>
  "rx_percent U = cat [Grp 1 (number U), ws_nl_ws, Grp 2 (One (oneof [37, c_not, c_infty]))]"

definition rx_scientific :: "unicode_db \<Rightarrow> rx" where
  \<comment> \<open>\<open>(\d+\.?\d*\s*[..x]\s*10)\s*\n\s*([-+]?\d+)\<close>, the class holding U+221A, U+00F3 and \<open>x\<close>\<close>
  "rx_scientific U =
     cat [Grp 1 (cat [number U, Star is_space, One (oneof [c_sqrt, c_oacute, 120]),
                      Star is_space, One (lit 49), One (lit 48)]),
          ws_nl_ws,
          Grp 2 (cat [Opt (oneof [45, 43]), Plus (is_digit U)])]"

definition rx_range :: "unicode_db \<Rightarrow> rx" where
  \<comment> \<open>\<open>(\d+\.?\d*)\s*\n\s*[-..]\s*\n\s*(\d+\.?\d*)\<close>, the class holding \<open>-\<close>, U+201A, U+00C4
      and U+00EC\<close>
  "rx_range U =
     cat [Grp 1 (number U), ws_nl_ws, One (oneof [45, c_lowq, c_Adia, c_igrave]), ws_nl_ws,
          Grp 2 (number U)]"

definition rx_error :: "unicode_db \<Rightarrow> rx" where
  \<comment> \<open>\<open>(\d+\.?\d*)\s*\n\s*..\s*\n\s*(\d+\.?\d*)\<close>, the literal being U+00AC U+00B1\<close>
  "rx_error U =
     cat [Grp 1 (number U), ws_nl_ws, One (lit c_not), One (lit c_pm), ws_nl_ws,
          Grp 2 (number U)]"

definition rx_unit :: "unicode_db \<Rightarrow> rx" where
  \<comment> \<open>\<open>(\d+\.?\d*)\s*\n\s*([..mkMGT]?[gLMVAW]|..[CF]?)\<close>: the first class holds U+0152,
      U+00BA and \<open>mkMGT\<close>; the second branch is U+00AC U+221E and an optional \<open>C\<close> or \<open>F\<close>\<close>
  "rx_unit U =
     cat [Grp 1 (number U), ws_nl_ws,
          Grp 2 (Alt (cat [Opt (oneof [c_OE, c_ordm, 109, 107, 77, 71, 84]),
                           One (oneof [103, 76, 77, 86, 65, 87])])
                     (cat [One (lit c_not), One (lit c_infty), Opt (oneof [67, 70])]))]"

definition fix_numerical_line_breaks :: "unicode_db \<Rightarrow> ustr \<Rightarrow> ustr" where
  "fix_numerical_line_breaks U text0 =
     (let text1 = re_sub (rx_percent U) [Ref 1, Ref 2] text0;
          text2 = re_sub (rx_scientific U) [Ref 1, Lit [94], Ref 2] text1;
          text3 = re_sub (rx_range U) [Ref 1, Lit [45], Ref 2] text2;
          text4 = re_sub (rx_error U) [Ref 1, Lit [c_not, c_pm], Ref 2] text3;
          text5 = re_sub (rx_unit U) [Ref 1, Ref 2] text4
      in text5)"

subsection \<open>\<open>_normalize_whitespace\<close>\<close>

text \<open>\<open>text.split('\n')\<close>: the pieces between newlines, always at least one piece.\<close>

fun split_nl :: "ustr \<Rightarrow> ustr list" where
  "split_nl [] = [] # []"
| "split_nl (c # cs) =
     (if c = NL then [] # split_nl cs
      else (case split_nl cs of [] \<Rightarrow> [c] # [] | l # ls \<Rightarrow> (c # l) # ls))"

definition ends_with_terminator :: "ustr \<Rightarrow> bool" where
  \<comment> \<open>\<open>line.endswith(('.', '!', '?', ':', ';'))\<close>\<close>
  "ends_with_terminator line \<longleftrightarrow> line \<noteq> [] \<and> last line \<in> {46, 33, 63, 58, 59}"

text \<open>
  The \<open>for i, line in enumerate(lines)\<close> loop: the result is \<open>cleaned_lines\<close>.  The test
  \<open>i < len(lines) - 1\<close> holds exactly when a next line exists, and \<open>lines[i + 1]\<close> is then
  the head of the remaining lines.
\<close>

fun normalize_lines :: "ustr list \<Rightarrow> ustr list" where
  "normalize_lines [] = []"
| "normalize_lines (l # rest) =
     (let line = strip l in
      (if line = [] then []
       else (case rest of
               [] \<Rightarrow> line
             | nxt # _ \<Rightarrow>
                 if ends_with_terminator line \<and> strip nxt \<noteq> [] then line
                 else if strip nxt \<noteq> [] then line @ [SP]
                 else line))
      # normalize_lines rest)"

definition normalize_whitespace :: "ustr \<Rightarrow> ustr" where
  "normalize_whitespace text0 =
     (let text1 = re_sub (Plus (lit SP)) [Lit [SP]] text0;
          text2 = re_sub (cat [One (lit NL), Plus (lit NL)]) [Lit [NL, NL]] text1;
          lines = split_nl text2
      in concat (normalize_lines lines))"

subsection \<open>\<open>_clean_preserve_numerical_symbols\<close>\<close>

text \<open>
  The characters the negated class of line 249 lists beside \<open>\w\<close> and \<open>\s\<close>:
  \<open>. , - +\<close>, U+221A, U+00F3, U+00AC, U+221E, \<open>%\<close>, U+00AC, U+00B1, \<open>= : / ( ) [ ]\<close>,
  U+0152, U+00BA and the letters \<open>mkMGTgLVAW\<close>.
\<close>

definition listed_symbols :: "nat list" where
  "listed_symbols =
     [46, 44, 45, 43, c_sqrt, c_oacute, c_not, c_infty, 37, c_not, c_pm, 61, 58, 47,
      40, 41, 91, 93, c_OE, c_ordm, 109, 107, 77, 71, 84, 103, 76, 86, 65, 87]"

definition non_essential :: "unicode_db \<Rightarrow> cls" where
  "non_essential U = (\<lambda>c. \<not> (is_word U c \<or> is_space c \<or> c \<in> set listed_symbols))"

definition clean_preserve_numerical_symbols :: "unicode_db \<Rightarrow> ustr \<Rightarrow> ustr" where
  "clean_preserve_numerical_symbols U text0 = re_sub (One (non_essential U)) [Lit [SP]] text0"

subsection \<open>\<open>_remove_noise_keep_context\<close>\<close>

definition rx_page :: "unicode_db \<Rightarrow> rx" where
  \<comment> \<open>\<open>\n\s*Page \d+\s*\n\<close> with \<open>re.IGNORECASE\<close>: each letter matches in either case\<close>
  "rx_page U =
     cat [One (lit NL), Star is_space,
          One (oneof [80, 112]), One (oneof [65, 97]), One (oneof [71, 103]),
          One (oneof [69, 101]), One (lit SP),
          Plus (is_digit U), Star is_space, One (lit NL)]"

definition rx_page_number :: "unicode_db \<Rightarrow> rx" where
  \<comment> \<open>\<open>\n\s*\d+\s*\n\<close>\<close>
  "rx_page_number U = cat [One (lit NL), Star is_space, Plus (is_digit U), Star is_space, One (lit NL)]"

definition rx_blank_lines :: rx where
  \<comment> \<open>\<open>\n\s*\n\s*\n+\<close>\<close>
  "rx_blank_lines = cat [One (lit NL), Star is_space, One (lit NL), Star is_space, Plus (lit NL)]"

definition rx_punct :: rx where
  \<comment> \<open>\<open>\s+([,;:])\s+\<close>\<close>
  "rx_punct = cat [Plus is_space, Grp 1 (One (oneof [44, 59, 58])), Plus is_space]"

definition remove_noise_keep_context :: "unicode_db \<Rightarrow> ustr \<Rightarrow> ustr" where
  "remove_noise_keep_context U text0 =
     (let text1 = re_sub (rx_page U) [Lit [NL]] text0;
          text2 = re_sub (rx_page_number U) [Lit [NL]] text1;
          text3 = re_sub rx_blank_lines [Lit [NL, NL]] text2;
          text4 = re_sub rx_punct [Ref 1, Lit [SP]] text3
      in strip text4)"

subsection \<open>\<open>_clean_text_for_numerical_extraction\<close>\<close>

definition clean_text_for_numerical_extraction :: "unicode_db \<Rightarrow> ustr \<Rightarrow> ustr" where
  "clean_text_for_numerical_extraction U raw_text =
     remove_noise_keep_context U
       (clean_preserve_numerical_symbols U
          (normalize_whitespace
             (fix_numerical_line_breaks U raw_text)))"


section \<open>Documents, statistics and the batch processor\<close>

record SourceDocument =
  source_id :: ustr
  source_label :: ustr
  file_path :: ustr
  raw_text :: ustr
  cleaned_text :: ustr
  processing_timestamp :: ustr

text \<open>
  One element of \<open>pdf_configs\<close>: a dictionary with the keys \<open>'path'\<close>, \<open>'source_id'\<close> and
  \<open>'source_label'\<close>.
\<close>

record pdf_config =
  path :: ustr
  config_source_id :: ustr
  config_source_label :: ustr

subsection \<open>\<open>_extract_text_from_pdf\<close>\<close>

text \<open>
  The file system and the PDF reader are outside the program.  A path holds no file, a
  file the reader fails on, or a file with the texts of its pages in order.
\<close>

datatype pdf_file = Unreadable | Pages "ustr list"

type_synonym filesystem = "ustr \<Rightarrow> pdf_file option"

datatype error = FileNotFoundError | ReadError

definition extract_text_from_pdf :: "filesystem \<Rightarrow> ustr \<Rightarrow> error + ustr" where
  "extract_text_from_pdf fs pdf_path =
     (case fs pdf_path of
        None \<Rightarrow> Inl FileNotFoundError
      | Some Unreadable \<Rightarrow> Inl ReadError
      | Some (Pages page_texts) \<Rightarrow> Inr (strip (concat (map (\<lambda>page_text. page_text @ [NL]) page_texts))))"

subsection \<open>The objects of a parser\<close>

text \<open>
  \<open>self.processing_stats\<close> is a reference to a dictionary object, and the value it holds
  under \<open>'source_mapping'\<close> is a reference to a second dictionary object.  The counters are
  integers, held by value.  Objects live in a store, by address, so that two references
  to one dictionary see each other's writes.
\<close>

type_synonym addr = nat

record stats =
  total_documents :: int
  successful_extractions :: int
  failed_extractions :: int
  total_text_length :: int
  source_mapping :: addr

record store =
  stats_at :: "addr \<Rightarrow> stats"
  mapping_at :: "addr \<Rightarrow> (ustr \<rightharpoonup> ustr)"
  next_addr :: addr

record parser =
  processing_stats :: addr

definition new_mapping :: "(ustr \<rightharpoonup> ustr) \<Rightarrow> store \<Rightarrow> addr \<times> store" where
  "new_mapping m st =
     (next_addr st, st\<lparr>mapping_at := (mapping_at st)(next_addr st := m), next_addr := next_addr st + 1\<rparr>)"

definition new_stats :: "stats \<Rightarrow> store \<Rightarrow> addr \<times> store" where
  "new_stats d st =
     (next_addr st, st\<lparr>stats_at := (stats_at st)(next_addr st := d), next_addr := next_addr st + 1\<rparr>)"

definition empty_store :: store where
  "empty_store =
     \<lparr> stats_at = (\<lambda>a. \<lparr>total_documents = 0, successful_extractions = 0, failed_extractions = 0,
                         total_text_length = 0, source_mapping = 0\<rparr>),
       mapping_at = (\<lambda>a. Map.empty),
       next_addr = 0 \<rparr>"

text \<open>\<open>EnhancedPDFParser.__init__\<close>, lines 56 to 63 (the logger is left out).\<close>

definition init :: "store \<Rightarrow> parser \<times> store" where
  "init st =
     (let (m, st1) = new_mapping Map.empty st;
          (d, st2) = new_stats \<lparr>total_documents = 0, successful_extractions = 0,
                                failed_extractions = 0, total_text_length = 0,
                                source_mapping = m\<rparr> st1
      in (\<lparr>processing_stats = d\<rparr>, st2))"

text \<open>What the parser sees through \<open>self.processing_stats\<close>.\<close>

definition own_stats :: "parser \<Rightarrow> store \<Rightarrow> stats" where
  "own_stats self st = stats_at st (processing_stats self)"

definition own_mapping :: "parser \<Rightarrow> store \<Rightarrow> (ustr \<rightharpoonup> ustr)" where
  "own_mapping self st = mapping_at st (source_mapping (own_stats self st))"

subsection \<open>\<open>process_multiple_pdfs\<close>\<close>

text \<open>
  The three statistics updates of lines 111 to 113, and the one of line 120.
\<close>

definition record_success :: "parser \<Rightarrow> pdf_config \<Rightarrow> ustr \<Rightarrow> store \<Rightarrow> store" where
  "record_success self config cleaned st =
     (let d = processing_stats self;
          st1 = st\<lparr>stats_at := (stats_at st)
                  (d := (stats_at st d)\<lparr>successful_extractions := successful_extractions (stats_at st d) + 1\<rparr>)\<rparr>;
          st2 = st1\<lparr>stats_at := (stats_at st1)
                  (d := (stats_at st1 d)\<lparr>total_text_length :=
                          total_text_length (stats_at st1 d) + int (length cleaned)\<rparr>)\<rparr>;
          m = source_mapping (stats_at st2 d)
      in st2\<lparr>mapping_at := (mapping_at st2)
                (m := (mapping_at st2 m)(config_source_id config \<mapsto> config_source_label config))\<rparr>)"

definition record_failure :: "parser \<Rightarrow> store \<Rightarrow> store" where
  "record_failure self st =
     (let d = processing_stats self
      in st\<lparr>stats_at := (stats_at st)
               (d := (stats_at st d)\<lparr>failed_extractions := failed_extractions (stats_at st d) + 1\<rparr>)\<rparr>)"

text \<open>The \<open>SourceDocument(...)\<close> built at lines 99 to 106.\<close>

definition document :: "pdf_config \<Rightarrow> ustr \<Rightarrow> ustr \<Rightarrow> ustr \<Rightarrow> SourceDocument" where
  "document config raw cleaned stamp =
     \<lparr> source_id = config_source_id config,
       source_label = config_source_label config,
       file_path = path config,
       raw_text = raw,
       cleaned_text = cleaned,
       processing_timestamp = stamp \<rparr>"

text \<open>
  The body of the \<open>for i, config in enumerate(pdf_configs, 1)\<close> loop.  The clock is
  outside the program: \<open>now i\<close> is what \<open>datetime.now().isoformat()\<close> returns while request
  \<open>i\<close> is processed.  An exception of the extraction is caught by the \<open>except\<close> clause,
  counted, and the loop goes on.
\<close>

fun process_requests :: "unicode_db \<Rightarrow> filesystem \<Rightarrow> (nat \<Rightarrow> ustr) \<Rightarrow> parser \<Rightarrow> nat \<Rightarrow>
      pdf_config list \<Rightarrow> SourceDocument list \<Rightarrow> store \<Rightarrow> SourceDocument list \<times> store" where
  "process_requests U fs now self i [] processed_documents st = (processed_documents, st)"
| "process_requests U fs now self i (config # rest) processed_documents st =
     (case extract_text_from_pdf fs (path config) of
        Inl e \<Rightarrow> process_requests U fs now self (i + 1) rest processed_documents (record_failure self st)
      | Inr raw \<Rightarrow>
          (let cleaned = clean_text_for_numerical_extraction U raw;
               source_doc = document config raw cleaned (now i)
           in process_requests U fs now self (i + 1) rest (processed_documents @ [source_doc])
                (record_success self config cleaned st)))"

definition process_multiple_pdfs :: "unicode_db \<Rightarrow> filesystem \<Rightarrow> (nat \<Rightarrow> ustr) \<Rightarrow> parser \<Rightarrow>
      pdf_config list \<Rightarrow> store \<Rightarrow> SourceDocument list \<times> store" where
  "process_multiple_pdfs U fs now self pdf_configs st =
     (let (processed_documents, st1) = process_requests U fs now self 1 pdf_configs [] st;
          d = processing_stats self;
          st2 = st1\<lparr>stats_at := (stats_at st1)
                  (d := (stats_at st1 d)\<lparr>total_documents := int (length pdf_configs)\<rparr>)\<rparr>
      in (processed_documents, st2))"

subsection \<open>\<open>get_processing_statistics\<close> and what a caller can do with the result\<close>

text \<open>
  \<open>self.processing_stats.copy()\<close> makes a new dictionary object holding the same values:
  the counters, and the same reference under \<open>'source_mapping'\<close>.
\<close>

definition get_processing_statistics :: "parser \<Rightarrow> store \<Rightarrow> addr \<times> store" where
  "get_processing_statistics self st = new_stats (stats_at st (processing_stats self)) st"

text \<open>
  The caller's statements \<open>snapshot['total_documents'] = n\<close> and
  \<open>snapshot['source_mapping'][k] = v\<close> on a dictionary at address \<open>snapshot\<close>.
\<close>

definition set_total_documents :: "addr \<Rightarrow> int \<Rightarrow> store \<Rightarrow> store" where
  "set_total_documents snapshot n st =
     st\<lparr>stats_at := (stats_at st)(snapshot := (stats_at st snapshot)\<lparr>total_documents := n\<rparr>)\<rparr>"

definition set_source_mapping_entry :: "addr \<Rightarrow> ustr \<Rightarrow> ustr \<Rightarrow> store \<Rightarrow> store" where
  "set_source_mapping_entry snapshot k v st =
     (let m = source_mapping (stats_at st snapshot)
      in st\<lparr>mapping_at := (mapping_at st)(m := (mapping_at st m)(k \<mapsto> v))\<rparr>)"

subsection \<open>The requests of \<open>demonstrate_enhanced_pdf_parser\<close>\<close>

definition config_one :: pdf_config where
  "config_one = \<lparr> path = ascii ''dobson_2003_protein_folding.pdf'',
                   config_source_id = ascii ''SRC_001'',
                   config_source_label = ascii ''Source One'' \<rparr>"

definition config_two :: pdf_config where
  "config_two = \<lparr> path = ascii ''mark_1997_kinase_study.pdf'',
                   config_source_id = ascii ''SRC_002'',
                   config_source_label = ascii ''Source Two'' \<rparr>"

definition config_three :: pdf_config where
  "config_three = \<lparr> path = ascii ''atlas_2005_proteomics.pdf'',
                     config_source_id = ascii ''SRC_003'',
                     config_source_label = ascii ''Source Three'' \<rparr>"

text \<open>
  A file system in which the first and the third path hold a one-page file and the second
  path holds nothing, and a clock.
\<close>

definition two_files :: filesystem where
  "two_files p =
     (if p = ascii ''dobson_2003_protein_folding.pdf'' then Some (Pages [ascii ''Yield 97.2 %''])
      else if p = ascii ''atlas_2005_proteomics.pdf'' then Some (Pages [ascii ''pH 7''])
      else None)"

definition clock :: "nat \<Rightarrow> ustr" where
  "clock i = ascii ''2026-01-01T00:00:0'' @ [48 + i]"

subsection \<open>Python's \<open>in\<close> on strings\<close>

fun starts_with :: "ustr \<Rightarrow> ustr \<Rightarrow> bool" where
  "starts_with s [] = True"
| "starts_with [] (p # ps) = False"
| "starts_with (x # xs) (p # ps) = (x = p \<and> starts_with xs ps)"

fun contains :: "ustr \<Rightarrow> ustr \<Rightarrow> bool" where
  "contains [] sub = (sub = [])"
| "contains (x # xs) sub = (starts_with (x # xs) sub \<or> contains xs sub)"


section \<open>Evaluation and basic facts\<close>

lemmas eval_defs =
  ascii_def NL_def SP_def rx_match_def lit_def oneof_def strip_def is_space_def
  ends_with_terminator_def is_digit_def is_word_def latin1_def
  c_not_def c_pm_def c_ordm_def c_Adia_def c_times_def c_igrave_def c_oacute_def c_OE_def
  c_lowq_def c_sqrt_def c_infty_def
  number_def ws_nl_ws_def rx_percent_def rx_scientific_def rx_range_def rx_error_def rx_unit_def
  fix_numerical_line_breaks_def normalize_whitespace_def listed_symbols_def non_essential_def
  clean_preserve_numerical_symbols_def rx_page_def rx_page_number_def rx_blank_lines_def
  rx_punct_def remove_noise_keep_context_def clean_text_for_numerical_extraction_def Let_def

lemma split_nl_nonempty: "split_nl s \<noteq> []"
  by (induction s) (auto split: list.splits)

lemma split_nl_no_newline: "l \<in> set (split_nl s) \<Longrightarrow> NL \<notin> set l"
proof (induction s arbitrary: l)
  case Nil
  then show ?case by simp
next
  case (Cons c cs)
  show ?case
  proof (cases "c = NL")
    case True
    with Cons show ?thesis by auto
  next
    case False
    obtain h t where ht: "split_nl cs = h # t"
      using split_nl_nonempty [of cs] by (cases "split_nl cs") auto
    with Cons False show ?thesis by auto
  qed
qed

lemma set_strip: "set (strip s) \<subseteq> set s"
proof -
  have "set (strip s) \<subseteq> set (rev (dropWhile is_space s))"
    unfolding strip_def using set_dropWhileD by fastforce
  also have "\<dots> \<subseteq> set s"
    using set_dropWhileD by fastforce
  finally show ?thesis .
qed

text \<open>Each line yields one fragment: nothing, the trimmed line, or the trimmed line and a space.\<close>

lemma normalize_lines_Cons:
  "\<exists>frag. normalize_lines (l # rest) = frag # normalize_lines rest \<and>
          (frag = [] \<or> frag = strip l \<or> frag = strip l @ [SP])"
  by (cases rest) (simp_all add: Let_def)

lemma normalize_lines_no_newline:
  "\<forall>l \<in> set ls. NL \<notin> set l \<Longrightarrow> f \<in> set (normalize_lines ls) \<Longrightarrow> NL \<notin> set f"
proof (induction ls arbitrary: f)
  case Nil
  then show ?case by simp
next
  case (Cons l rest)
  have l: "NL \<notin> set (strip l)"
    using Cons.prems(1) set_strip [of l] by auto
  have sp: "NL \<noteq> SP" by (simp add: NL_def SP_def)
  obtain frag where frag: "normalize_lines (l # rest) = frag # normalize_lines rest"
      and shape: "frag = [] \<or> frag = strip l \<or> frag = strip l @ [SP]"
    using normalize_lines_Cons by blast
  from Cons.prems(2) frag have "f = frag \<or> f \<in> set (normalize_lines rest)"
    by simp
  then show ?case
  proof
    assume "f = frag"
    with shape l sp show ?thesis by auto
  next
    assume "f \<in> set (normalize_lines rest)"
    with Cons show ?thesis by simp
  qed
qed

text \<open>A pattern of one class replaces, character by character.\<close>

lemma rx_match_One_Cons:
  "rx_match (One c) (x # xs) = (if c x then Some (xs, \<lambda>n. []) else None)"
  by (simp add: rx_match_def)

lemma rx_match_One_Nil: "rx_match (One c) [] = None"
  by (simp add: rx_match_def)

lemma re_sub_One: "re_sub (One c) [Lit [a]] s = map (\<lambda>x. if c x then a else x) s"
  by (induction s) (simp_all add: rx_match_One_Cons rx_match_One_Nil)

lemma space_is_essential: "\<not> non_essential U SP"
  by (simp add: non_essential_def is_space_def SP_def)

text \<open>The parser's own statistics after each update.\<close>

lemma own_stats_record_success:
  "own_stats self (record_success self config cleaned st) =
     (own_stats self st)\<lparr>successful_extractions := successful_extractions (own_stats self st) + 1,
                         total_text_length := total_text_length (own_stats self st) + int (length cleaned)\<rparr>"
  by (simp add: own_stats_def record_success_def Let_def)

lemma own_stats_record_failure:
  "own_stats self (record_failure self st) =
     (own_stats self st)\<lparr>failed_extractions := failed_extractions (own_stats self st) + 1\<rparr>"
  by (simp add: own_stats_def record_failure_def Let_def)

lemma own_stats_init:
  "own_stats (fst (init st)) (snd (init st)) =
     \<lparr>total_documents = 0, successful_extractions = 0, failed_extractions = 0,
      total_text_length = 0, source_mapping = next_addr st\<rparr>"
  by (simp add: own_stats_def init_def new_mapping_def new_stats_def Let_def)

lemma batch_of_one:
  assumes "extract_text_from_pdf fs (path c) = Inr raw"
  shows "process_multiple_pdfs U fs now self [c] st =
           ([document c raw (clean_text_for_numerical_extraction U raw) (now 1)],
            snd (process_multiple_pdfs U fs now self [c] st)) \<and>
         own_stats self (snd (process_multiple_pdfs U fs now self [c] st)) =
           (own_stats self st)\<lparr>successful_extractions := successful_extractions (own_stats self st) + 1,
              total_text_length := total_text_length (own_stats self st) +
                 int (length (clean_text_for_numerical_extraction U raw)),
              total_documents := 1\<rparr>"
  using assms
  by (simp add: process_multiple_pdfs_def Let_def own_stats_def record_success_def)

lemma extract_one: "extract_text_from_pdf two_files (path config_one) = Inr (ascii ''Yield 97.2 %'')"
  by (simp add: extract_text_from_pdf_def two_files_def config_one_def eval_defs)

lemma extract_two: "extract_text_from_pdf two_files (path config_two) = Inl FileNotFoundError"
  by (simp add: extract_text_from_pdf_def two_files_def config_two_def eval_defs)

lemma extract_three: "extract_text_from_pdf two_files (path config_three) = Inr (ascii ''pH 7'')"
  by (simp add: extract_text_from_pdf_def two_files_def config_three_def eval_defs)

lemma clean_one: "clean_text_for_numerical_extraction U (ascii ''Yield 97.2 %'') = ascii ''Yield 97.2 %''"
  by (simp add: eval_defs)

lemma clean_three: "clean_text_for_numerical_extraction U (ascii ''pH 7'') = ascii ''pH 7''"
  by (simp add: eval_defs)

lemma length_ascii: "length (ascii s) = length s"
  by (simp add: ascii_def)

text \<open>
  With an \<open>x\<close> for the multiplication sign the exponent rule fires and writes the caret,
  and the symbol filter then erases it.
\<close>

lemma caret_written_then_erased:
  "fix_numerical_line_breaks U (ascii ''Rate: 1.5 x 10'' @ [NL] @ ascii ''-6 per second'')
     = ascii ''Rate: 1.5 x 10^-6 per second''"
  "clean_text_for_numerical_extraction U (ascii ''Rate: 1.5 x 10'' @ [NL] @ ascii ''-6 per second'')
     = ascii ''Rate: 1.5 x 10 -6 per second''"
  by (simp_all add: eval_defs)

text \<open>
  The error-bound rule fires on the two code points U+00AC U+00B1 that the pattern holds.
\<close>

lemma error_rule_on_its_own_literal:
  "re_sub (rx_error U) [Ref 1, Lit [c_not, c_pm], Ref 2]
     (ascii ''95.2'' @ [NL, c_not, c_pm, NL] @ ascii ''0.5'')
     = ascii ''95.2'' @ [c_not, c_pm] @ ascii ''0.5''"
  by (simp add: eval_defs)

text \<open>A single page-number line between two text lines goes; a line \<open>42.5\<close> stays.\<close>

lemma page_number_line_examples:
  "remove_noise_keep_context U (ascii ''a'' @ [NL] @ ascii ''42'' @ [NL] @ ascii ''b'')
     = ascii ''a'' @ [NL] @ ascii ''b''"
  "remove_noise_keep_context U (ascii ''a'' @ [NL] @ ascii ''42.5'' @ [NL] @ ascii ''b'')
     = ascii ''a'' @ [NL] @ ascii ''42.5'' @ [NL] @ ascii ''b''"
  by (simp_all add: eval_defs)

text \<open>
  Taking a snapshot changes nothing the parser sees, the snapshot holds the parser's
  values, and a write to a counter of the snapshot stays in the snapshot.
\<close>

lemma snapshot_keeps_own_stats:
  "own_stats self (snd (get_processing_statistics self st)) = own_stats self st"
  by (simp add: get_processing_statistics_def new_stats_def own_stats_def)

lemma snapshot_keeps_own_mapping:
  "own_mapping self (snd (get_processing_statistics self st)) = own_mapping self st"
  by (simp add: get_processing_statistics_def new_stats_def own_mapping_def own_stats_def)

lemma snapshot_is_copy:
  "stats_at (snd (get_processing_statistics self st)) (fst (get_processing_statistics self st))
     = own_stats self st"
  by (simp add: get_processing_statistics_def new_stats_def own_stats_def)

lemma snapshot_counter_write_is_private:
  assumes "processing_stats self < next_addr st"
      and "get_processing_statistics self st = (snapshot, st1)"
  shows "own_stats self (set_total_documents snapshot n st1) = own_stats self st"
  using assms
  by (auto simp: get_processing_statistics_def new_stats_def own_stats_def set_total_documents_def)

text \<open>
  In every state, an entry written through the snapshot's \<open>'source_mapping'\<close> is an entry
  of the parser's own mapping: the two dictionaries hold one reference.
\<close>

lemma snapshot_mapping_write_is_shared:
  assumes "get_processing_statistics self st = (snapshot, st1)"
  shows "own_mapping self (set_source_mapping_entry snapshot k v st1) k = Some v"
  using assms
  by (auto simp: get_processing_statistics_def new_stats_def own_stats_def own_mapping_def
       set_source_mapping_entry_def Let_def)

text \<open>
  What a match can hold: the text left after a match and the texts of its groups are made
  of characters of the text matched, so \<open>re.sub\<close> writes only characters of its input and of
  the literal parts of its replacement.
\<close>

lemma star_m_result:
  "star_m c s k = Some res \<Longrightarrow> \<exists>s1. k s1 = Some res \<and> set s1 \<subseteq> set s"
proof (induction s)
  case Nil
  then show ?case by auto
next
  case (Cons x xs)
  show ?case
  proof (cases "c x \<and> star_m c xs k \<noteq> None")
    case True
    with Cons.prems have "star_m c xs k = Some res" by auto
    from Cons.IH [OF this] show ?thesis by auto
  next
    case False
    with Cons.prems have "k (x # xs) = Some res" by (auto split: if_splits option.splits)
    then show ?thesis by blast
  qed
qed

lemma rx_m_result:
  "rx_m r s g k = Some res \<Longrightarrow>
     \<exists>s1 g1. k s1 g1 = Some res \<and> set s1 \<subseteq> set s \<and> (\<forall>n. set (g1 n) \<subseteq> set (g n) \<union> set s)"
proof (induction r arbitrary: s g k res)
  case (One c)
  then show ?case by (cases s) (auto split: if_splits)
next
  case (Opt c)
  show ?case
  proof (cases s)
    case Nil
    with Opt show ?thesis by auto
  next
    case (Cons x xs)
    with Opt have "k xs g = Some res \<or> k (x # xs) g = Some res"
      by (auto split: if_splits option.splits)
    with Cons show ?thesis by fastforce
  qed
next
  case (Star c)
  then have "star_m c s (\<lambda>s'. k s' g) = Some res" by simp
  from star_m_result [OF this] show ?case by auto
next
  case (Plus c)
  then obtain x xs where s: "s = x # xs" and "star_m c xs (\<lambda>s'. k s' g) = Some res"
    by (cases s) (auto split: if_splits)
  from star_m_result [OF this(2)] s show ?case by auto
next
  case (Seq a b)
  then have "rx_m a s g (\<lambda>s' g'. rx_m b s' g' k) = Some res" by simp
  from Seq.IH(1) [OF this] obtain s1 g1 where
    b: "rx_m b s1 g1 k = Some res" and s1: "set s1 \<subseteq> set s"
    and g1: "\<forall>n. set (g1 n) \<subseteq> set (g n) \<union> set s" by blast
  from Seq.IH(2) [OF b] obtain s2 g2 where
    k: "k s2 g2 = Some res" and s2: "set s2 \<subseteq> set s1"
    and g2: "\<forall>n. set (g2 n) \<subseteq> set (g1 n) \<union> set s1" by blast
  have "\<forall>n. set (g2 n) \<subseteq> set (g n) \<union> set s"
    using g1 g2 s1 by blast
  with k s1 s2 show ?case by blast
next
  case (Alt a b)
  then have "rx_m a s g k = Some res \<or> rx_m b s g k = Some res"
    by (auto split: option.splits)
  with Alt.IH show ?case by blast
next
  case (Grp n r)
  then have "rx_m r s g (\<lambda>s' g'. k s' (g'(n := take (length s - length s') s))) = Some res"
    by simp
  from Grp.IH [OF this] obtain s1 g1 where
    k: "k s1 (g1(n := take (length s - length s1) s)) = Some res" and s1: "set s1 \<subseteq> set s"
    and g1: "\<forall>m. set (g1 m) \<subseteq> set (g m) \<union> set s" by blast
  have "\<forall>m. set ((g1(n := take (length s - length s1) s)) m) \<subseteq> set (g m) \<union> set s"
    using g1 set_take_subset [of "length s - length s1" s] by auto
  with k s1 show ?case by blast
qed

lemma rx_match_result:
  assumes "rx_match r s = Some (s', g)"
  shows "set s' \<subseteq> set s \<and> (\<forall>n. set (g n) \<subseteq> set s)"
proof -
  from assms have "rx_m r s (\<lambda>n. []) (\<lambda>s' g. Some (s', g)) = Some (s', g)"
    by (simp add: rx_match_def)
  from rx_m_result [OF this] show ?thesis by auto
qed

lemma expand_chars:
  "\<forall>l. Lit l \<in> set t \<longrightarrow> set l \<subseteq> A \<Longrightarrow> \<forall>n. set (g n) \<subseteq> A \<Longrightarrow> set (expand t g) \<subseteq> A"
  by (induction t g rule: expand.induct) auto

lemma re_sub_chars:
  "\<forall>l. Lit l \<in> set t \<longrightarrow> set l \<subseteq> A \<Longrightarrow> set s \<subseteq> A \<Longrightarrow> set (re_sub r t s) \<subseteq> A"
proof (induction r t s rule: re_sub.induct)
  case (1 r t)
  show ?case
  proof (cases "rx_match r []")
    case None
    then show ?thesis by simp
  next
    case (Some p)
    obtain s' g where p: "p = (s', g)" by (cases p)
    from rx_match_result [of r "[]" s' g] Some p have "\<forall>n. set (g n) \<subseteq> A" by auto
    with expand_chars [OF "1.prems"(1)] Some p show ?thesis by simp
  qed
next
  case (2 r t x xs)
  show ?case
  proof (cases "rx_match r (x # xs)")
    case None
    with 2 show ?thesis by simp
  next
    case (Some p)
    obtain s' g where p: "p = (s', g)" by (cases p)
    from rx_match_result [of r "x # xs" s' g] Some p "2.prems"(2)
    have s': "set s' \<subseteq> A" and g: "\<forall>n. set (g n) \<subseteq> A" by auto
    have e: "set (expand t g) \<subseteq> A" using expand_chars [OF "2.prems"(1) g] .
    show ?thesis
    proof (cases "length s' < length (x # xs)")
      case True
      with "2.IH"(2) [OF Some p [symmetric] True "2.prems"(1) s'] e Some p show ?thesis by simp
    next
      case False
      from "2.prems"(2) have xs: "set xs \<subseteq> A" and x: "x \<in> A" by auto
      from "2.IH"(3) [OF Some p [symmetric] False "2.prems"(1) xs] e x Some p False
      show ?thesis by simp
    qed
  qed
qed

text \<open>
  No cleaned text holds a caret: the symbol filter replaces every caret, and the noise
  remover writes only newlines, spaces and characters of its input.
\<close>

lemma caret_is_non_essential: "non_essential U 94"
  by (simp add: eval_defs)

lemma symbol_filter_no_caret: "94 \<notin> set (clean_preserve_numerical_symbols U s)"
  by (auto simp: clean_preserve_numerical_symbols_def re_sub_One caret_is_non_essential SP_def)

lemma remove_noise_no_caret:
  assumes "94 \<notin> set s"
  shows "94 \<notin> set (remove_noise_keep_context U s)"
proof -
  let ?A = "UNIV - {94::nat}"
  have s: "set s \<subseteq> ?A" using assms by auto
  have 1: "set (re_sub (rx_page U) [Lit [NL]] s) \<subseteq> ?A"
    by (rule re_sub_chars [OF _ s]) (simp add: NL_def)
  have 2: "set (re_sub (rx_page_number U) [Lit [NL]] (re_sub (rx_page U) [Lit [NL]] s)) \<subseteq> ?A"
    by (rule re_sub_chars [OF _ 1]) (simp add: NL_def)
  have 3: "set (re_sub rx_blank_lines [Lit [NL, NL]]
             (re_sub (rx_page_number U) [Lit [NL]] (re_sub (rx_page U) [Lit [NL]] s))) \<subseteq> ?A"
    by (rule re_sub_chars [OF _ 2]) (simp add: NL_def)
  have 4: "set (re_sub rx_punct [Ref 1, Lit [SP]] (re_sub rx_blank_lines [Lit [NL, NL]]
             (re_sub (rx_page_number U) [Lit [NL]] (re_sub (rx_page U) [Lit [NL]] s)))) \<subseteq> ?A"
    by (rule re_sub_chars [OF _ 3]) (simp add: SP_def)
  have "set (remove_noise_keep_context U s) \<subseteq> ?A"
    unfolding remove_noise_keep_context_def Let_def using set_strip 4 by blast
  then show ?thesis by auto
qed

lemma cleaned_text_has_no_caret: "94 \<notin> set (clean_text_for_numerical_extraction U raw)"
  unfolding clean_text_for_numerical_extraction_def
  by (rule remove_noise_no_caret) (rule symbol_filter_no_caret)

lemma starts_with_set: "starts_with s p \<Longrightarrow> set p \<subseteq> set s"
  by (induction s p rule: starts_with.induct) auto

lemma contains_set: "contains s sub \<Longrightarrow> set sub \<subseteq> set s"
proof (induction s)
  case Nil
  then show ?case by simp
next
  case (Cons x xs)
  then show ?case using starts_with_set [of "x # xs" sub] by auto
qed

lemma no_input_gives_the_exponent:
  "\<not> contains (clean_text_for_numerical_extraction U raw)
       (ascii ''1.5 '' @ [c_times] @ ascii '' 10^-6'')"
proof
  assume "contains (clean_text_for_numerical_extraction U raw)
            (ascii ''1.5 '' @ [c_times] @ ascii '' 10^-6'')"
  from contains_set [OF this] have "94 \<in> set (clean_text_for_numerical_extraction U raw)"
    by (auto simp: ascii_def)
  with cleaned_text_has_no_caret show False by blast
qed

text \<open>
  In the pipeline the noise remover receives a text without newlines, so its three
  patterns that start with a newline never match: only the punctuation rule and the final
  \<open>strip\<close> act.
\<close>

lemma re_sub_needs_first:
  assumes "a \<notin> set s"
  shows "re_sub (Seq (One (lit a)) r) t s = s"
  using assms
proof (induction s)
  case Nil
  then show ?case by (simp add: rx_match_def)
next
  case (Cons x xs)
  then show ?case by (simp add: rx_match_def lit_def)
qed

lemma remove_noise_without_newline:
  assumes "NL \<notin> set s"
  shows "remove_noise_keep_context U s = strip (re_sub rx_punct [Ref 1, Lit [SP]] s)"
  using assms
  by (simp add: remove_noise_keep_context_def Let_def rx_page_def rx_page_number_def
        rx_blank_lines_def re_sub_needs_first)

lemma symbol_filter_no_new_newline:
  "NL \<notin> set s \<Longrightarrow> NL \<notin> set (clean_preserve_numerical_symbols U s)"
  by (auto simp: clean_preserve_numerical_symbols_def re_sub_One NL_def SP_def)

lemma pipeline_never_removes_page_lines:
  "clean_text_for_numerical_extraction U raw =
     strip (re_sub rx_punct [Ref 1, Lit [SP]]
       (clean_preserve_numerical_symbols U (normalize_whitespace (fix_numerical_line_breaks U raw))))"
proof -
  have "NL \<notin> set (normalize_whitespace (fix_numerical_line_breaks U raw))"
    unfolding normalize_whitespace_def Let_def
    using normalize_lines_no_newline split_nl_no_newline by fastforce
  then have "NL \<notin> set (clean_preserve_numerical_symbols U
                         (normalize_whitespace (fix_numerical_line_breaks U raw)))"
    by (rule symbol_filter_no_new_newline)
  then show ?thesis
    unfolding clean_text_for_numerical_extraction_def by (rule remove_noise_without_newline)
qed


section \<open>The claims\<close>

text \<open>
  Claim C1.  In the line pass of the whitespace normalizer, when a trimmed line ends in one
  of \<open>. ! ? : ;\<close> and the next line is non-empty after trimming, the line break between
  them is preserved: the fragment emitted for the line ends with a newline.

  The code does not do this, although its comment says \<open>keep the line break\<close>.  For the two
  lines \<open>A.\<close> and \<open>B\<close> the fragment emitted for the first line is \<open>A.\<close>, with no newline,
  and the normalizer turns the text \<open>A.\<close>, newline, \<open>B\<close> into \<open>A.B\<close>.  No fragment of any
  text holds a newline (\<open>split_nl_no_newline\<close>, \<open>normalize_lines_no_newline\<close>).
\<close>

theorem terminator_line_break_is_dropped:
  "normalize_lines [ascii ''A.'', ascii ''B''] = [ascii ''A.'', ascii ''B''] \<and>
   normalize_whitespace (ascii ''A.'' @ [NL] @ ascii ''B'') = ascii ''A.B''"
  by (simp add: eval_defs)

text \<open>
  Claim C2.  The four passes on the raw text \<open>Yield was 97.2\n% under standard
  conditions.\nPage 3\n\<close> give a cleaned text that contains \<open>97.2%\<close> and does not contain
  \<open>Page 3\<close>.

  The first half holds, the second does not: the cleaned text is
  \<open>Yield was 97.2% under standard conditions.Page 3\<close>, for every Unicode database.  The
  normalizer has removed every newline before the noise remover runs, so the pattern for
  a \<open>Page N\<close> line, which needs a newline on both sides, finds nothing, on this and on
  every other raw text (\<open>pipeline_never_removes_page_lines\<close>).
\<close>

theorem scenario_1_keeps_page_line:
  "clean_text_for_numerical_extraction U
     (ascii ''Yield was 97.2'' @ [NL] @ ascii ''% under standard conditions.'' @ [NL] @
      ascii ''Page 3'' @ [NL])
     = ascii ''Yield was 97.2% under standard conditions.Page 3'' \<and>
   contains (ascii ''Yield was 97.2% under standard conditions.Page 3'') (ascii ''97.2%'') \<and>
   contains (ascii ''Yield was 97.2% under standard conditions.Page 3'') (ascii ''Page 3'')"
  by (simp add: eval_defs)

text \<open>
  Claim C3.  The four passes on the raw text \<open>Rate: 1.5 * 10\n-6 per second\<close>, where \<open>*\<close>
  stands for the multiplication sign U+00D7, give a cleaned text containing
  \<open>1.5 * 10^-6\<close>: the rewrite introduces a caret and the caret survives the later passes.

  The code does neither.  The class of the exponent rule holds U+221A, U+00F3 and \<open>x\<close>, not
  U+00D7, so the line-break repair leaves the text as it is; and the symbol filter keeps
  neither U+00D7 nor a caret (\<open>symbol_filter_no_caret\<close>, \<open>caret_written_then_erased\<close>).
  The cleaned text is \<open>Rate: 1.5\<close>, three spaces, \<open>10 -6 per second\<close>; no raw text at all
  has a cleaned text with a caret (\<open>cleaned_text_has_no_caret\<close>,
  \<open>no_input_gives_the_exponent\<close>).
\<close>

theorem scientific_scenario_has_no_caret:
  "fix_numerical_line_breaks latin1
     (ascii ''Rate: 1.5 '' @ [c_times] @ ascii '' 10'' @ [NL] @ ascii ''-6 per second'')
     = ascii ''Rate: 1.5 '' @ [c_times] @ ascii '' 10'' @ [NL] @ ascii ''-6 per second'' \<and>
   clean_text_for_numerical_extraction latin1
     (ascii ''Rate: 1.5 '' @ [c_times] @ ascii '' 10'' @ [NL] @ ascii ''-6 per second'')
     = ascii ''Rate: 1.5   10 -6 per second'' \<and>
   \<not> contains (ascii ''Rate: 1.5   10 -6 per second'')
        (ascii ''1.5 '' @ [c_times] @ ascii '' 10^-6'')"
  by (simp add: eval_defs)

text \<open>
  Claim C4.  For every input text, the output of the whitespace normalizer contains no
  newline character: no fragment of the line loop holds one, be it the fragment of a line
  whose break the comment says is kept or of an empty line, and the fragments are
  concatenated with nothing between.
\<close>

theorem normalize_whitespace_no_newline:
  "NL \<notin> set (normalize_whitespace t) \<and>
   (\<forall>fragment \<in> set (normalize_lines (split_nl t)). NL \<notin> set fragment)"
proof
  show "NL \<notin> set (normalize_whitespace t)"
    unfolding normalize_whitespace_def Let_def
    using normalize_lines_no_newline split_nl_no_newline by fastforce
  show "\<forall>fragment \<in> set (normalize_lines (split_nl t)). NL \<notin> set fragment"
    using normalize_lines_no_newline split_nl_no_newline by blast
qed

theorem normalize_whitespace_no_newline_witness:
  "normalize_lines (split_nl (ascii ''Done.'' @ [NL] @ ascii ''Next'' @ [NL, NL] @ ascii ''End''))
     = [ascii ''Done.'', ascii ''Next'', [], ascii ''End''] \<and>
   normalize_whitespace (ascii ''Done.'' @ [NL] @ ascii ''Next'' @ [NL, NL] @ ascii ''End'')
     = ascii ''Done.NextEnd'' \<and>
   NL \<notin> set (normalize_whitespace (ascii ''Done.'' @ [NL] @ ascii ''Next'' @ [NL, NL] @ ascii ''End'')) \<and>
   NL \<notin> set (ascii ''Done.'') \<and> NL \<notin> set (ascii ''Next'') \<and> NL \<notin> set (ascii ''End'')"
proof -
  have "normalize_lines (split_nl (ascii ''Done.'' @ [NL] @ ascii ''Next'' @ [NL, NL] @ ascii ''End''))
     = [ascii ''Done.'', ascii ''Next'', [], ascii ''End'']"
    by (simp add: eval_defs)
  moreover have "normalize_whitespace (ascii ''Done.'' @ [NL] @ ascii ''Next'' @ [NL, NL] @ ascii ''End'')
     = ascii ''Done.NextEnd''"
    by (simp add: eval_defs)
  ultimately show ?thesis
    using normalize_whitespace_no_newline
            [of "ascii ''Done.'' @ [NL] @ ascii ''Next'' @ [NL, NL] @ ascii ''End''"]
    by simp
qed

text \<open>
  Claim C5.  On a fresh parser, for a batch of three requests of which the second fails
  because its path does not exist and the other two succeed, the batch returns exactly
  the documents of requests 1 and 3, in that order, and afterwards
  \<open>successful_extractions\<close> is 2, \<open>failed_extractions\<close> is 1 and \<open>total_documents\<close> is 3.
\<close>

theorem batch_skips_failed_request:
  assumes "extract_text_from_pdf fs (path c1) = Inr raw1"
      and "extract_text_from_pdf fs (path c2) = Inl FileNotFoundError"
      and "extract_text_from_pdf fs (path c3) = Inr raw3"
      and "init st = (self, st0)"
      and "process_multiple_pdfs U fs now self [c1, c2, c3] st0 = (docs, st1)"
  shows "docs = [document c1 raw1 (clean_text_for_numerical_extraction U raw1) (now 1),
                 document c3 raw3 (clean_text_for_numerical_extraction U raw3) (now 3)] \<and>
         successful_extractions (own_stats self st1) = 2 \<and>
         failed_extractions (own_stats self st1) = 1 \<and>
         total_documents (own_stats self st1) = 3"
proof -
  let ?clean1 = "clean_text_for_numerical_extraction U raw1"
  let ?clean3 = "clean_text_for_numerical_extraction U raw3"
  let ?s1 = "record_success self c1 ?clean1 st0"
  let ?s2 = "record_failure self ?s1"
  let ?s3 = "record_success self c3 ?clean3 ?s2"
  have fresh: "own_stats self st0 =
     \<lparr>total_documents = 0, successful_extractions = 0, failed_extractions = 0,
      total_text_length = 0, source_mapping = next_addr st\<rparr>"
    using own_stats_init [of st] assms(4) by simp
  have loop: "process_requests U fs now self 1 [c1, c2, c3] [] st0 =
                ([document c1 raw1 ?clean1 (now 1), document c3 raw3 ?clean3 (now 3)], ?s3)"
    using assms(1-3) by (simp add: Let_def numeral_3_eq_3)
  have s3: "own_stats self ?s3 =
     \<lparr>total_documents = 0, successful_extractions = 2, failed_extractions = 1,
      total_text_length = int (length ?clean1) + int (length ?clean3),
      source_mapping = next_addr st\<rparr>"
    by (simp add: own_stats_record_success own_stats_record_failure fresh)
  from assms(5) loop
  have docs: "docs = [document c1 raw1 ?clean1 (now 1), document c3 raw3 ?clean3 (now 3)]"
    and st1: "st1 = ?s3\<lparr>stats_at := (stats_at ?s3)
                 (processing_stats self := (stats_at ?s3 (processing_stats self))\<lparr>total_documents := 3\<rparr>)\<rparr>"
    by (simp_all add: process_multiple_pdfs_def Let_def)
  have "own_stats self st1 = (own_stats self ?s3)\<lparr>total_documents := 3\<rparr>"
    unfolding st1 by (simp add: own_stats_def)
  with s3 docs show ?thesis by simp
qed

theorem batch_skips_failed_request_witness:
  "map source_id (fst (process_multiple_pdfs latin1 two_files clock (fst (init empty_store))
         [config_one, config_two, config_three] (snd (init empty_store))))
     = [ascii ''SRC_001'', ascii ''SRC_003''] \<and>
   successful_extractions (own_stats (fst (init empty_store))
      (snd (process_multiple_pdfs latin1 two_files clock (fst (init empty_store))
         [config_one, config_two, config_three] (snd (init empty_store))))) = 2 \<and>
   failed_extractions (own_stats (fst (init empty_store))
      (snd (process_multiple_pdfs latin1 two_files clock (fst (init empty_store))
         [config_one, config_two, config_three] (snd (init empty_store))))) = 1 \<and>
   total_documents (own_stats (fst (init empty_store))
      (snd (process_multiple_pdfs latin1 two_files clock (fst (init empty_store))
         [config_one, config_two, config_three] (snd (init empty_store))))) = 3"
  using batch_skips_failed_request
          [where U = latin1 and now = clock and st = empty_store,
           OF extract_one extract_two extract_three prod.collapse [symmetric]
              prod.collapse [symmetric]]
  by (simp add: document_def config_one_def config_three_def)

text \<open>
  Claim C6.  On one parser, statistics accumulate across batch calls: after two batch
  calls with one successful document each, \<open>successful_extractions\<close> and
  \<open>total_text_length\<close> hold the sums over both calls, while \<open>total_documents\<close> is 1 after
  each call, because every call overwrites it with its own number of requests.  The
  theorem starts from any state of the parser; on a fresh one the sums start from 0.
\<close>

theorem statistics_accumulate_across_calls:
  assumes "extract_text_from_pdf fs (path c1) = Inr raw1"
      and "extract_text_from_pdf fs' (path c2) = Inr raw2"
      and "process_multiple_pdfs U fs now self [c1] st = (docs1, st1)"
      and "process_multiple_pdfs U fs' now' self [c2] st1 = (docs2, st2)"
  shows "total_documents (own_stats self st1) = 1 \<and>
         total_documents (own_stats self st2) = 1 \<and>
         successful_extractions (own_stats self st1) = successful_extractions (own_stats self st) + 1 \<and>
         successful_extractions (own_stats self st2) = successful_extractions (own_stats self st) + 2 \<and>
         total_text_length (own_stats self st1) = total_text_length (own_stats self st)
            + int (length (clean_text_for_numerical_extraction U raw1)) \<and>
         total_text_length (own_stats self st2) = total_text_length (own_stats self st)
            + int (length (clean_text_for_numerical_extraction U raw1))
            + int (length (clean_text_for_numerical_extraction U raw2)) \<and>
         map cleaned_text docs1 = [clean_text_for_numerical_extraction U raw1] \<and>
         map cleaned_text docs2 = [clean_text_for_numerical_extraction U raw2]"
proof -
  from batch_of_one [OF assms(1), of U now self st] assms(3)
  have d1: "docs1 = [document c1 raw1 (clean_text_for_numerical_extraction U raw1) (now 1)]"
    and s1: "own_stats self st1 =
           (own_stats self st)\<lparr>successful_extractions := successful_extractions (own_stats self st) + 1,
              total_text_length := total_text_length (own_stats self st) +
                 int (length (clean_text_for_numerical_extraction U raw1)),
              total_documents := 1\<rparr>"
    by simp_all
  from batch_of_one [OF assms(2), of U now' self st1] assms(4)
  have d2: "docs2 = [document c2 raw2 (clean_text_for_numerical_extraction U raw2) (now' 1)]"
    and s2: "own_stats self st2 =
           (own_stats self st1)\<lparr>successful_extractions := successful_extractions (own_stats self st1) + 1,
              total_text_length := total_text_length (own_stats self st1) +
                 int (length (clean_text_for_numerical_extraction U raw2)),
              total_documents := 1\<rparr>"
    by simp_all
  show ?thesis
    by (simp add: d1 d2 s1 s2 document_def)
qed

theorem statistics_accumulate_across_calls_witness:
  "total_documents (own_stats (fst (init empty_store))
      (snd (process_multiple_pdfs latin1 two_files clock (fst (init empty_store)) [config_one]
              (snd (init empty_store))))) = 1 \<and>
   total_documents (own_stats (fst (init empty_store))
      (snd (process_multiple_pdfs latin1 two_files clock (fst (init empty_store)) [config_three]
         (snd (process_multiple_pdfs latin1 two_files clock (fst (init empty_store)) [config_one]
              (snd (init empty_store))))))) = 1 \<and>
   successful_extractions (own_stats (fst (init empty_store))
      (snd (process_multiple_pdfs latin1 two_files clock (fst (init empty_store)) [config_three]
         (snd (process_multiple_pdfs latin1 two_files clock (fst (init empty_store)) [config_one]
              (snd (init empty_store))))))) = 2 \<and>
   total_text_length (own_stats (fst (init empty_store))
      (snd (process_multiple_pdfs latin1 two_files clock (fst (init empty_store)) [config_three]
         (snd (process_multiple_pdfs latin1 two_files clock (fst (init empty_store)) [config_one]
              (snd (init empty_store))))))) = 16"
  using statistics_accumulate_across_calls
          [where U = latin1 and now = clock and now' = clock
             and self = "fst (init empty_store)" and st = "snd (init empty_store)",
           OF extract_one extract_three prod.collapse [symmetric] prod.collapse [symmetric]]
  by (simp add: own_stats_init clean_one clean_three length_ascii)

text \<open>
  Claim C7.  For every text \<open>T\<close>, applying the symbol filter twice gives the same result as
  applying it once.  This holds for every Unicode database.
\<close>

theorem symbol_filter_idempotent:
  "clean_preserve_numerical_symbols U (clean_preserve_numerical_symbols U T)
     = clean_preserve_numerical_symbols U T"
  by (simp add: clean_preserve_numerical_symbols_def re_sub_One space_is_essential)

theorem symbol_filter_idempotent_witness:
  "clean_preserve_numerical_symbols latin1 (clean_preserve_numerical_symbols latin1 (ascii ''a^b {c}''))
     = clean_preserve_numerical_symbols latin1 (ascii ''a^b {c}'') \<and>
   clean_preserve_numerical_symbols latin1 (ascii ''a^b {c}'') = ascii ''a b  c ''"
proof -
  have "clean_preserve_numerical_symbols latin1 (ascii ''a^b {c}'') = ascii ''a b  c ''"
    by (simp add: eval_defs)
  with symbol_filter_idempotent [of latin1 "ascii ''a^b {c}''"] show ?thesis by simp
qed


text \<open>
  Claim C9.  The statistics snapshot is a copy: in every state of the parser, mutating the
  returned snapshot, its nested \<open>source_mapping\<close> included, leaves the parser's own
  statistics unchanged.

  Taking the snapshot has no effect on the parser and a write to a counter of the snapshot
  stays private (\<open>snapshot_keeps_own_stats\<close>, \<open>snapshot_counter_write_is_private\<close>), but
  \<open>dict.copy()\<close> copies one level only.  On a fresh parser, the statement
  \<open>snapshot['source_mapping']['SRC_X'] = 'Injected'\<close> puts the entry into the parser's own
  mapping, which was empty before.
\<close>

theorem snapshot_shares_source_mapping:
  "(let (self, st0) = init empty_store;
        (snapshot, st1) = get_processing_statistics self st0;
        st2 = set_source_mapping_entry snapshot (ascii ''SRC_X'') (ascii ''Injected'') st1
    in own_mapping self st1 (ascii ''SRC_X'') = None \<and>
       own_mapping self st2 (ascii ''SRC_X'') = Some (ascii ''Injected''))"
  by (simp add: init_def empty_store_def new_mapping_def new_stats_def get_processing_statistics_def
        set_source_mapping_entry_def own_mapping_def own_stats_def Let_def)

text \<open>
  Claim C10.  The four passes on the raw text \<open>Error: 95.2\n+-\n0.5 units\<close>, where \<open>+-\<close>
  stands for the plus-minus sign U+00B1, give a cleaned text containing \<open>95.2+-0.5\<close>.

  The code does not join the three lines into one token.  The error-bound rule looks for
  the two code points U+00AC U+00B1 between the newlines
  (\<open>error_rule_on_its_own_literal\<close>), which a text holding U+00B1 alone does not have;
  the line-break repair leaves the text as it is, and the normalizer joins the lines with
  spaces.  The cleaned text is \<open>Error: 95.2 +- 0.5 units\<close>.
\<close>

theorem error_bound_scenario_is_not_joined:
  "fix_numerical_line_breaks latin1 (ascii ''Error: 95.2'' @ [NL, c_pm, NL] @ ascii ''0.5 units'')
     = ascii ''Error: 95.2'' @ [NL, c_pm, NL] @ ascii ''0.5 units'' \<and>
   clean_text_for_numerical_extraction latin1
     (ascii ''Error: 95.2'' @ [NL, c_pm, NL] @ ascii ''0.5 units'')
     = ascii ''Error: 95.2 '' @ [c_pm] @ ascii '' 0.5 units'' \<and>
   \<not> contains (ascii ''Error: 95.2 '' @ [c_pm] @ ascii '' 0.5 units'')
        (ascii ''95.2'' @ [c_pm] @ ascii ''0.5'')"
  by (simp add: eval_defs)

end
